theory Spec2Isabelle
  imports Main
begin

section \<open>Python values and exceptions\<close>

text \<open>
  The rule is a Python 3 module. A Python \<open>str\<close> is modelled by \<^typ>\<open>string\<close>; the
  character \<open>c\<close> stands for the code point \<open>of_char c\<close>, so the model covers the strings
  over the code points below 256. The exceptions the modelled code can raise are values of
  \<open>error\<close>, and a computation that may raise returns \<open>error + 'a\<close> with \<open>Inl\<close> the
  exception.
\<close>

datatype error =
    KeyError string
  | IndexError
  | TypeError
  | ValueError string
  | ClientError string

text \<open>
  The values \<open>json.loads\<close> produces that the rule reads: integers and strings at the
  leaves, objects above them. A dictionary is the list of its items in insertion order,
  whose keys are distinct, read with \<^const>\<open>map_of\<close>. Rule parameters are a
  dictionary of leaves; a security configuration is a \<open>json\<close> value.
\<close>

datatype scalar = SInt int | SStr string

type_synonym 'v dict = "(string \<times> 'v) list"

datatype json = JVal scalar | JObj "(string \<times> json) list"

definition bind_err :: "error + 'a \<Rightarrow> ('a \<Rightarrow> error + 'b) \<Rightarrow> error + 'b" where
  "bind_err m f = (case m of Inl e \<Rightarrow> Inl e | Inr x \<Rightarrow> f x)"

definition has_key :: "string \<Rightarrow> 'v dict \<Rightarrow> bool" where
  "has_key k d = (map_of d k \<noteq> None)"

definition getitem :: "'v dict \<Rightarrow> string \<Rightarrow> error + 'v" where
  "getitem d k = (case map_of d k of None \<Rightarrow> Inl (KeyError k) | Some v \<Rightarrow> Inr v)"

subsection \<open>\<open>str\<close> and \<open>repr\<close>\<close>

definition digit_char :: "nat \<Rightarrow> char" where
  "digit_char d = char_of (48 + d)"

fun str_nat :: "nat \<Rightarrow> string" where
  "str_nat n = (if n < 10 then [digit_char n] else str_nat (n div 10) @ [digit_char (n mod 10)])"

definition str_int :: "int \<Rightarrow> string" where
  "str_int i = (if i < 0 then CHR ''-'' # str_nat (nat (- i)) else str_nat (nat i))"

definition str_scalar :: "scalar \<Rightarrow> string" where
  "str_scalar v = (case v of SStr s \<Rightarrow> s | SInt i \<Rightarrow> str_int i)"

text \<open>
  \<open>repr\<close> of a string: single quotes, unless the string has a single quote and no double
  quote; the quote and the backslash are escaped, tab, newline and carriage return are
  written \<open>\t\<close>, \<open>\n\<close>, \<open>\r\<close>, and the other characters that are not printable (below
  U+0020, U+007F to U+00A0, U+00AD) as \<open>\xhh\<close>.
\<close>

definition hex_char :: "nat \<Rightarrow> char" where
  "hex_char d = (if d < 10 then char_of (48 + d) else char_of (87 + d))"

definition repr_char :: "char \<Rightarrow> char \<Rightarrow> string" where
  "repr_char q c = (let n = (of_char c :: nat) in
     if c = q \<or> c = CHR 0x5C then [CHR 0x5C, c]
     else if c = CHR 0x09 then [CHR 0x5C, CHR ''t'']
     else if c = CHR 0x0A then [CHR 0x5C, CHR ''n'']
     else if c = CHR 0x0D then [CHR 0x5C, CHR ''r'']
     else if n < 32 \<or> (127 \<le> n \<and> n \<le> 160) \<or> n = 173
       then [CHR 0x5C, CHR ''x'', hex_char (n div 16), hex_char (n mod 16)]
     else [c])"

definition repr_str :: "string \<Rightarrow> string" where
  "repr_str s = (let q = (if CHR 0x27 \<in> set s \<and> CHR 0x22 \<notin> set s then CHR 0x22 else CHR 0x27)
     in [q] @ concat (map (repr_char q) s) @ [q])"

fun join :: "string \<Rightarrow> string list \<Rightarrow> string" where
  "join sep [] = []"
| "join sep [x] = x"
| "join sep (x # y # ys) = x @ sep @ join sep (y # ys)"

fun repr :: "json \<Rightarrow> string" where
  "repr (JVal (SInt i)) = str_int i"
| "repr (JVal (SStr s)) = repr_str s"
| "repr (JObj items) =
     ''{'' @ join '', '' (map (\<lambda>(k, v). repr_str k @ '': '' @ repr v) items) @ ''}''"

definition py_str :: "json \<Rightarrow> string" where
  "py_str v = (case v of JVal x \<Rightarrow> str_scalar x | JObj items \<Rightarrow> repr (JObj items))"

subsection \<open>Membership, subscription and comparison\<close>

text \<open>
  \<open>k in v\<close> for a string \<open>k\<close>: key membership in a dictionary, substring test in a
  string, \<open>TypeError\<close> on an integer. \<open>v[k]\<close>: the value of the key, \<open>KeyError\<close> if the
  dictionary has no such key, \<open>TypeError\<close> on a string or an integer. \<open>a < b\<close>: the order
  of the integers, the order of strings by code point, \<open>TypeError\<close> between values of
  different types and between dictionaries.
\<close>

fun contains :: "string \<Rightarrow> string \<Rightarrow> bool" where
  "contains k [] = (k = [])"
| "contains k (c # cs) = (take (length k) (c # cs) = k \<or> contains k cs)"

definition py_in :: "string \<Rightarrow> json \<Rightarrow> error + bool" where
  "py_in k v = (case v of
       JObj items \<Rightarrow> Inr (has_key k items)
     | JVal (SStr s) \<Rightarrow> Inr (contains k s)
     | JVal (SInt i) \<Rightarrow> Inl TypeError)"

definition py_getitem :: "json \<Rightarrow> string \<Rightarrow> error + json" where
  "py_getitem v k = (case v of JObj items \<Rightarrow> getitem items k | JVal x \<Rightarrow> Inl TypeError)"

fun str_lt :: "string \<Rightarrow> string \<Rightarrow> bool" where
  "str_lt [] [] = False"
| "str_lt [] (b # bs) = True"
| "str_lt (a # as) [] = False"
| "str_lt (a # as) (b # bs) =
     ((of_char a :: nat) < of_char b \<or> (a = b \<and> str_lt as bs))"

definition py_lt :: "json \<Rightarrow> scalar \<Rightarrow> error + bool" where
  "py_lt a b = (case (a, b) of
       (JVal (SInt x), SInt y) \<Rightarrow> Inr (x < y)
     | (JVal (SStr x), SStr y) \<Rightarrow> Inr (str_lt x y)
     | _ \<Rightarrow> Inl TypeError)"

subsection \<open>String predicates of the Python library\<close>
text \<open>
  On the code points below 256, \<open>str.isnumeric\<close> holds of a non-empty string of the
  digits \<open>0\<close> to \<open>9\<close>, the superscripts U+00B2, U+00B3, U+00B9 and the fractions U+00BC to
  U+00BE. \<open>str.isupper\<close> holds if the string has no lowercase character and at least one
  uppercase character.
\<close>

definition numeric_char :: "char \<Rightarrow> bool" where
  "numeric_char c = (let n = (of_char c :: nat) in
     (48 \<le> n \<and> n \<le> 57) \<or> n = 178 \<or> n = 179 \<or> n = 185 \<or> (188 \<le> n \<and> n \<le> 190))"

definition isnumeric :: "string \<Rightarrow> bool" where
  "isnumeric s = (s \<noteq> [] \<and> list_all numeric_char s)"

definition upper_char :: "char \<Rightarrow> bool" where
  "upper_char c = (let n = (of_char c :: nat) in
     (65 \<le> n \<and> n \<le> 90) \<or> (192 \<le> n \<and> n \<le> 214) \<or> (216 \<le> n \<and> n \<le> 222))"

definition lower_char :: "char \<Rightarrow> bool" where
  "lower_char c = (let n = (of_char c :: nat) in
     (97 \<le> n \<and> n \<le> 122) \<or> n = 170 \<or> n = 181 \<or> n = 186 \<or>
     (223 \<le> n \<and> n \<le> 246) \<or> (248 \<le> n \<and> n \<le> 255))"

definition isupper :: "string \<Rightarrow> bool" where
  "isupper s = (list_all (\<lambda>c. \<not> lower_char c) s \<and> list_ex upper_char s)"

text \<open>\<open>s.split(sep)\<close> for a separator of one character.\<close>

fun split :: "char \<Rightarrow> string \<Rightarrow> string list" where
  "split sep [] = [[]]"
| "split sep (c # cs) =
     (if c = sep then [] # split sep cs
      else (case split sep cs of [] \<Rightarrow> [[c]] | w # ws \<Rightarrow> (c # w) # ws))"

section \<open>Hostname validation\<close>

text \<open>
  The pattern \<open>(?!-)[A-Z\d-]{1,63}(?<!-)$\<close>, compiled with \<open>re.IGNORECASE\<close> and applied
  with \<open>match\<close>: from the start of the label, 1 to 63 characters that are letters, digits or
  hyphens, the first and the last of them not a hyphen, up to the end of the label. In
  Python \<open>$\<close> also matches just before a newline that ends the string.
\<close>

definition label_char :: "char \<Rightarrow> bool" where
  "label_char c = (let n = (of_char c :: nat) in
     (65 \<le> n \<and> n \<le> 90) \<or> (97 \<le> n \<and> n \<le> 122) \<or> (48 \<le> n \<and> n \<le> 57) \<or> c = CHR ''-'')"

definition label_body :: "string \<Rightarrow> bool" where
  "label_body x = (1 \<le> length x \<and> length x \<le> 63 \<and> list_all label_char x \<and>
     hd x \<noteq> CHR ''-'' \<and> last x \<noteq> CHR ''-'')"

definition allowed_match :: "string \<Rightarrow> bool" where
  "allowed_match x =
     (label_body x \<or> (x \<noteq> [] \<and> last x = CHR 0x0A \<and> label_body (butlast x)))"

text \<open>
  \<open>is_valid_hostname(hostname, type)\<close>. \<open>len\<close> of an integer raises \<open>TypeError\<close>;
  \<open>hostname[-1]\<close> of the empty string raises \<open>IndexError\<close>.
\<close>

definition is_valid_hostname :: "scalar \<Rightarrow> string \<Rightarrow> error + bool" where
  "is_valid_hostname value type = (case value of
       SInt i \<Rightarrow> Inl TypeError
     | SStr hostname \<Rightarrow>
        if length hostname > 255 then Inr False
        else if hostname = [] then Inl IndexError
        else
          let hostname = (if last hostname = CHR ''.'' then butlast hostname else hostname);
              fqdn = split (CHR '':'') hostname
          in
            if type = ''FQDN'' \<and> length fqdn > 1 \<and> \<not> isnumeric (fqdn ! 1) then Inr False
            else
              let hostname = (if type = ''FQDN'' then hd fqdn else hostname) in
              if length (split (CHR ''.'') hostname) < 2 then Inr False
              else Inr (list_all allowed_match (split (CHR ''.'') hostname)))"

section \<open>Parameter validation\<close>

text \<open>
  \<open>evaluate_parameters(rule_parameters)\<close>: the five checks in the order of the source,
  each raising \<open>ValueError\<close> with the name of the parameter; an exception of
  \<open>is_valid_hostname\<close> passes through. In the check of \<open>Realm\<close> the hostname is only
  validated when the value is upper case (\<open>or\<close> evaluates its second operand only if the
  first is false).
\<close>

definition check_hostname :: "scalar dict \<Rightarrow> string \<Rightarrow> string \<Rightarrow> error + unit" where
  "check_hostname rule_parameters name type =
     (case map_of rule_parameters name of
        None \<Rightarrow> Inr ()
      | Some v \<Rightarrow> bind_err (is_valid_hostname v type)
          (\<lambda>ok. if \<not> ok then Inl (ValueError name) else Inr ()))"

definition check_ticket :: "scalar dict \<Rightarrow> error + unit" where
  "check_ticket rule_parameters =
     (case map_of rule_parameters ''TicketLifetimeInHours'' of
        None \<Rightarrow> Inr ()
      | Some v \<Rightarrow> if \<not> isnumeric (str_scalar v) then Inl (ValueError ''TicketLifetimeInHours'')
                  else Inr ())"

definition check_realm :: "scalar dict \<Rightarrow> error + unit" where
  "check_realm rule_parameters =
     (case map_of rule_parameters ''Realm'' of
        None \<Rightarrow> Inr ()
      | Some v \<Rightarrow> if \<not> isupper (str_scalar v) then Inl (ValueError ''Realm'')
                  else bind_err (is_valid_hostname v ''DOMAIN'')
                    (\<lambda>ok. if \<not> ok then Inl (ValueError ''Realm'') else Inr ()))"

definition evaluate_parameters :: "scalar dict \<Rightarrow> error + scalar dict" where
  "evaluate_parameters rule_parameters =
     (if rule_parameters = [] then Inr []
      else
        bind_err (check_ticket rule_parameters) (\<lambda>_.
        bind_err (check_realm rule_parameters) (\<lambda>_.
        bind_err (check_hostname rule_parameters ''Domain'' ''DOMAIN'') (\<lambda>_.
        bind_err (check_hostname rule_parameters ''AdminServer'' ''FQDN'') (\<lambda>_.
        bind_err (check_hostname rule_parameters ''KdcServer'' ''FQDN'') (\<lambda>_.
        Inr rule_parameters))))))"

section \<open>Evaluations\<close>

text \<open>
  An evaluation is the dictionary \<open>build_evaluation\<close> makes, its items in the order of
  the assignments. Of the event the evaluation uses the notification time of the invoking
  event, as \<open>str\<close> gives it. \<open>if annotation\<close> is false of \<open>None\<close> and of the empty
  string.
\<close>

type_synonym evaluation = "string dict"

record event =
  notificationCreationTime :: string
  configRuleName :: string
  accountId :: string
  resultToken :: string

definition DEFAULT_RESOURCE_TYPE :: string where
  "DEFAULT_RESOURCE_TYPE = ''AWS::EMR::Cluster''"

definition build_evaluation ::
  "string \<Rightarrow> string \<Rightarrow> event \<Rightarrow> string \<Rightarrow> string option \<Rightarrow> evaluation" where
  "build_evaluation resource_id compliance_type ev resource_type annotation =
     (case annotation of
        None \<Rightarrow> []
      | Some a \<Rightarrow> if a \<noteq> [] then [(''Annotation'', a)] else []) @
     [(''ComplianceResourceType'', resource_type),
      (''ComplianceResourceId'', resource_id),
      (''ComplianceType'', compliance_type),
      (''OrderingTimestamp'', notificationCreationTime ev)]"

section \<open>The compliance decision for one security configuration\<close>

text \<open>
  Lines 165 to 169 of the source: the test that the Kerberos block is missing. Each
  disjunct is evaluated only if the ones before it are false.
\<close>

definition kerberos_missing :: "json \<Rightarrow> error + bool" where
  "kerberos_missing cluster_sc_details =
     bind_err (py_in ''AuthenticationConfiguration'' cluster_sc_details) (\<lambda>b1.
       if \<not> b1 then Inr True else
     bind_err (py_getitem cluster_sc_details ''AuthenticationConfiguration'') (\<lambda>auth.
     bind_err (py_in ''KerberosConfiguration'' auth) (\<lambda>b2.
       if \<not> b2 then Inr True else
     bind_err (py_getitem auth ''KerberosConfiguration'') (\<lambda>kerberos.
     bind_err (py_in ''ClusterDedicatedKdcConfiguration'' kerberos) (\<lambda>b3.
       Inr (\<not> b3))))))"

definition kerberos_details :: "json \<Rightarrow> error + json" where
  "kerberos_details cluster_sc_details =
     bind_err (py_getitem cluster_sc_details ''AuthenticationConfiguration'') (\<lambda>auth.
     bind_err (py_getitem auth ''KerberosConfiguration'') (\<lambda>kerberos.
     py_getitem kerberos ''ClusterDedicatedKdcConfiguration''))"

text \<open>Lines 172 and 173: the condition under which the ticket lifetime is reported.\<close>

definition ticket_smaller :: "scalar dict \<Rightarrow> json \<Rightarrow> error + bool" where
  "ticket_smaller rule_parameters sc_kerberos_details =
     (case map_of rule_parameters ''TicketLifetimeInHours'' of
        None \<Rightarrow> Inr False
      | Some p \<Rightarrow> bind_err (py_getitem sc_kerberos_details ''TicketLifetimeInHours'')
          (\<lambda>v. py_lt v p))"

text \<open>
  The condition of lines 183 and 184, and of the three checks after it:
  \<open>not str(d[name]).__eq__(rule_parameters[name])\<close>. \<open>str.__eq__\<close> returns
  \<open>NotImplemented\<close> when its argument is not a string, and \<open>not NotImplemented\<close> is
  \<open>False\<close> in the Python 3 versions before 3.14.
\<close>

definition not_str_eq :: "string \<Rightarrow> scalar \<Rightarrow> bool" where
  "not_str_eq s p = (case p of SStr t \<Rightarrow> s \<noteq> t | SInt i \<Rightarrow> False)"

definition field_differs :: "scalar dict \<Rightarrow> json \<Rightarrow> string \<Rightarrow> error + bool" where
  "field_differs rule_parameters sc_kerberos_details name =
     (case map_of rule_parameters name of
        None \<Rightarrow> Inr False
      | Some p \<Rightarrow> bind_err (py_getitem sc_kerberos_details name)
          (\<lambda>v. Inr (not_str_eq (py_str v) p)))"

definition non_compliant :: "string \<Rightarrow> event \<Rightarrow> string \<Rightarrow> evaluation" where
  "non_compliant cluster_id ev annotation =
     build_evaluation cluster_id ''NON_COMPLIANT'' ev DEFAULT_RESOURCE_TYPE (Some annotation)"

text \<open>Lines 177 to 203: the cross-realm checks.\<close>

definition evaluate_cross_realm ::
  "event \<Rightarrow> scalar dict \<Rightarrow> string \<Rightarrow> json \<Rightarrow> error + evaluation" where
  "evaluate_cross_realm ev rule_parameters cluster_id sc_kerberos_details =
     bind_err (py_in ''CrossRealmTrustConfiguration'' sc_kerberos_details) (\<lambda>present.
       if \<not> present then Inr (non_compliant cluster_id ev
         ''CrossRealmTrustConfiguration is not configured in security configuration.'') else
     bind_err (py_getitem sc_kerberos_details ''CrossRealmTrustConfiguration'') (\<lambda>cross.
     bind_err (field_differs rule_parameters cross ''Realm'') (\<lambda>d1.
       if d1 then Inr (non_compliant cluster_id ev
         ''Realm is not equal to the specified Rule parameter Realm.'') else
     bind_err (field_differs rule_parameters cross ''Domain'') (\<lambda>d2.
       if d2 then Inr (non_compliant cluster_id ev
         ''Domain is not equal to the specified Rule parameter Domain.'') else
     bind_err (field_differs rule_parameters cross ''AdminServer'') (\<lambda>d3.
       if d3 then Inr (non_compliant cluster_id ev
         ''AdminServer is not equal to the specified Rule parameter AdminServer.'') else
     bind_err (field_differs rule_parameters cross ''KdcServer'') (\<lambda>d4.
       if d4 then Inr (non_compliant cluster_id ev
         ''KdcServer is not equal to the specified Rule parameter KdcServer.'') else
     Inr (build_evaluation cluster_id ''COMPLIANT'' ev DEFAULT_RESOURCE_TYPE None)))))))"

text \<open>Lines 165 to 203: the decision once the security configuration is loaded.\<close>

definition evaluate_document ::
  "event \<Rightarrow> scalar dict \<Rightarrow> string \<Rightarrow> json \<Rightarrow> error + evaluation" where
  "evaluate_document ev rule_parameters cluster_id cluster_sc_details =
     bind_err (kerberos_missing cluster_sc_details) (\<lambda>missing.
       if missing then Inr (non_compliant cluster_id ev
         ''Kerberos Authentication is not enabled in the Security Configuration.'') else
     bind_err (kerberos_details cluster_sc_details) (\<lambda>sc_kerberos_details.
     bind_err (ticket_smaller rule_parameters sc_kerberos_details) (\<lambda>smaller.
       if smaller then Inr (non_compliant cluster_id ev
         ''TicketLifetimeInHours is smaller than the specified Rule parameter TicketLifetimeInHours.'')
       else evaluate_cross_realm ev rule_parameters cluster_id sc_kerberos_details)))"

section \<open>The clusters of the account\<close>

text \<open>
  The EMR service is a snapshot the rule reads: the clusters \<open>get_all_cluster\<close> collects
  from the pages of \<open>list_clusters\<close>, and the answers of \<open>describe_cluster\<close> and of
  \<open>describe_security_configuration\<close>, the latter already parsed by \<open>json.loads\<close>. A call
  that fails raises. The calls the rule makes are recorded in a log, which is the state the
  evaluation threads.
\<close>

record cluster_summary =
  ClusterId :: string

record described_cluster =
  Status_State :: string
  SecurityConfiguration :: "string option"

record emr_snapshot =
  all_clusters :: "error + cluster_summary list"
  describe_cluster :: "string \<Rightarrow> error + described_cluster"
  describe_security_configuration :: "string \<Rightarrow> error + json"

datatype emr_call =
    ListClusters
  | DescribeCluster string
  | DescribeSecurityConfiguration string

text \<open>The body of the loop of \<open>evaluate_compliance\<close>, lines 150 to 204.\<close>

definition evaluate_cluster ::
  "emr_snapshot \<Rightarrow> event \<Rightarrow> scalar dict \<Rightarrow> cluster_summary \<Rightarrow> emr_call list \<Rightarrow>
     (error + evaluation) \<times> emr_call list" where
  "evaluate_cluster emr ev rule_parameters cluster calls =
     (let cluster_id = ClusterId cluster;
          calls1 = calls @ [DescribeCluster cluster_id]
      in case describe_cluster emr cluster_id of
           Inl e \<Rightarrow> (Inl e, calls1)
         | Inr described \<Rightarrow>
             if Status_State described \<in>
                  set [''TERMINATING'', ''TERMINATED'', ''TERMINATED_WITH_ERRORS'']
             then (Inr (build_evaluation cluster_id ''NOT_APPLICABLE'' ev
                          DEFAULT_RESOURCE_TYPE None), calls1)
             else (case SecurityConfiguration described of
                 None \<Rightarrow> (Inr (non_compliant cluster_id ev
                             ''No Security Configuration is attached.''), calls1)
               | Some name \<Rightarrow>
                   (let calls2 = calls1 @ [DescribeSecurityConfiguration name]
                    in case describe_security_configuration emr name of
                         Inl e \<Rightarrow> (Inl e, calls2)
                       | Inr cluster_sc_details \<Rightarrow>
                           (evaluate_document ev rule_parameters cluster_id
                              cluster_sc_details, calls2))))"



section \<open>Reconciliation with the previous evaluations and submission\<close>

text \<open>
  \<open>clean_up_old_evaluations\<close>, lines 432 to 441. The previous evaluations are the resource
  ids the pages of the Config service list. The inner loop reads the resource id of every
  latest evaluation, which raises \<open>KeyError\<close> when one has none.
\<close>

fun newer_founded :: "string \<Rightarrow> evaluation list \<Rightarrow> bool \<Rightarrow> error + bool" where
  "newer_founded old_resource_id [] found = Inr found"
| "newer_founded old_resource_id (latest_eval # rest) found =
     bind_err (getitem latest_eval ''ComplianceResourceId'') (\<lambda>rid.
       newer_founded old_resource_id rest (if old_resource_id = rid then True else found))"

fun clean_up_loop ::
  "event \<Rightarrow> evaluation list \<Rightarrow> string list \<Rightarrow> evaluation list \<Rightarrow> error + evaluation list" where
  "clean_up_loop ev latest_evaluations [] cleaned_evaluations = Inr cleaned_evaluations"
| "clean_up_loop ev latest_evaluations (old_resource_id # rest) cleaned_evaluations =
     bind_err (newer_founded old_resource_id latest_evaluations False) (\<lambda>found.
       clean_up_loop ev latest_evaluations rest
         (if \<not> found
          then cleaned_evaluations @
            [build_evaluation old_resource_id ''NOT_APPLICABLE'' ev DEFAULT_RESOURCE_TYPE None]
          else cleaned_evaluations))"

definition clean_up_old_evaluations ::
  "evaluation list \<Rightarrow> event \<Rightarrow> string list \<Rightarrow> error + evaluation list" where
  "clean_up_old_evaluations latest_evaluations ev old_eval_list =
     bind_err (clean_up_loop ev latest_evaluations old_eval_list [])
       (\<lambda>cleaned_evaluations. Inr (cleaned_evaluations @ latest_evaluations))"

text \<open>
  The part of \<open>lambda_handler\<close> after the evaluation, lines 477 to 516, for what
  \<open>evaluate_compliance\<close> returns, \<open>None\<close> or a list. \<open>not compliance_result\<close> holds of
  \<open>None\<close> and of the empty list: the account is then reported \<open>NOT_APPLICABLE\<close>. Of
  a list that is not empty the evaluations that miss a required field are left out, lines
  485 to 495. The submission loop, lines 514 to 516, returns the batches it puts.
\<close>

definition required_fields :: "string list" where
  "required_fields =
     [''ComplianceResourceType'', ''ComplianceResourceId'', ''ComplianceType'',
      ''OrderingTimestamp'']"

definition missing_fields :: "evaluation \<Rightarrow> bool" where
  "missing_fields evaluation =
     fold (\<lambda>field missing. if \<not> has_key field evaluation then True else missing)
       required_fields False"

definition latest_of_list :: "evaluation list \<Rightarrow> evaluation list" where
  "latest_of_list compliance_result =
     fold (\<lambda>evaluation latest_evaluations.
             if \<not> missing_fields evaluation then latest_evaluations @ [evaluation]
             else latest_evaluations)
       compliance_result []"

function put_evaluations :: "evaluation list \<Rightarrow> evaluation list list" where
  "put_evaluations evaluations =
     (if evaluations = [] then []
      else take 100 evaluations # put_evaluations (drop 100 evaluations))"
  by pat_completeness auto
termination
  by (relation "measure length") auto

declare put_evaluations.simps [simp del]

definition account_not_applicable :: "event \<Rightarrow> evaluation" where
  "account_not_applicable ev =
     build_evaluation (accountId ev) ''NOT_APPLICABLE'' ev ''AWS::::Account'' None"

definition submit_evaluations ::
  "event \<Rightarrow> string list \<Rightarrow> evaluation list option \<Rightarrow> error + evaluation list list" where
  "submit_evaluations ev old_eval_list compliance_result =
     bind_err
       (case compliance_result of
          None \<Rightarrow> clean_up_old_evaluations [account_not_applicable ev] ev old_eval_list
        | Some evaluations \<Rightarrow>
            if evaluations = []
            then clean_up_old_evaluations [account_not_applicable ev] ev old_eval_list
            else clean_up_old_evaluations (latest_of_list evaluations) ev old_eval_list)
       (\<lambda>evaluations. Inr (put_evaluations evaluations))"

section \<open>Vocabulary of the properties and sample inputs\<close>

text \<open>
  The \<open>ClusterDedicatedKdcConfiguration\<close> block of a security configuration, when the
  configuration is an object that has it under \<open>AuthenticationConfiguration\<close> and
  \<open>KerberosConfiguration\<close>, both objects.
\<close>

definition kdc_block :: "json \<Rightarrow> json option" where
  "kdc_block cluster_sc_details = (case cluster_sc_details of
       JVal x \<Rightarrow> None
     | JObj items \<Rightarrow> (case map_of items ''AuthenticationConfiguration'' of
           Some (JObj auth) \<Rightarrow> (case map_of auth ''KerberosConfiguration'' of
               Some (JObj kerberos) \<Rightarrow> map_of kerberos ''ClusterDedicatedKdcConfiguration''
             | _ \<Rightarrow> None)
         | _ \<Rightarrow> None))"

text \<open>The resource ids of a list of evaluations, in order.\<close>

definition resource_ids :: "evaluation list \<Rightarrow> string list" where
  "resource_ids evaluations =
     List.map_filter (\<lambda>evaluation. map_of evaluation ''ComplianceResourceId'') evaluations"

definition not_applicable :: "event \<Rightarrow> string \<Rightarrow> evaluation" where
  "not_applicable ev resource_id =
     build_evaluation resource_id ''NOT_APPLICABLE'' ev DEFAULT_RESOURCE_TYPE None"

definition terminated_states :: "string set" where
  "terminated_states = {''TERMINATING'', ''TERMINATED'', ''TERMINATED_WITH_ERRORS''}"

text \<open>A security configuration as EMR returns it, with ticket lifetime \<open>t\<close>.\<close>

definition sample_cross_realm :: "(string \<times> json) list" where
  "sample_cross_realm =
     [(''Realm'', JVal (SStr ''AD.EXAMPLE.COM'')),
      (''Domain'', JVal (SStr ''ad.example.com'')),
      (''AdminServer'', JVal (SStr ''ad.example.com'')),
      (''KdcServer'', JVal (SStr ''ad.example.com''))]"

definition sample_kdc :: "int \<Rightarrow> (string \<times> json) list" where
  "sample_kdc t =
     [(''TicketLifetimeInHours'', JVal (SInt t)),
      (''CrossRealmTrustConfiguration'', JObj sample_cross_realm)]"

definition kdc_document :: "(string \<times> json) list \<Rightarrow> json" where
  "kdc_document kdc =
     JObj [(''AuthenticationConfiguration'',
       JObj [(''KerberosConfiguration'',
         JObj [(''Provider'', JVal (SStr ''ClusterDedicatedKdc'')),
               (''ClusterDedicatedKdcConfiguration'', JObj kdc)])])]"

definition sample_event :: event where
  "sample_event =
     \<lparr>notificationCreationTime = ''2019-06-01T00:00:00.000Z'', configRuleName = ''emr-kerberos'',
      accountId = ''123456789012'', resultToken = ''TESTMODE''\<rparr>"

definition sample_parameters :: "int \<Rightarrow> scalar dict" where
  "sample_parameters p =
     [(''TicketLifetimeInHours'', SInt p),
      (''Realm'', SStr ''AD.EXAMPLE.COM''),
      (''Domain'', SStr ''ad.example.com''),
      (''AdminServer'', SStr ''ad.example.com''),
      (''KdcServer'', SStr ''ad.example.com'')]"

definition string_parameters :: "scalar dict" where
  "string_parameters = [(''TicketLifetimeInHours'', SStr ''24''), (''Owner'', SStr ''security'')]"

text \<open>
  An account with three clusters: \<open>j-1\<close> terminated, \<open>j-2\<close> running with no security
  configuration, \<open>j-3\<close> waiting with the security configuration \<open>sc\<close>, whose document
  is the one given.
\<close>

definition sample_emr :: "json \<Rightarrow> emr_snapshot" where
  "sample_emr document =
     \<lparr>all_clusters =
        Inr [\<lparr>ClusterId = ''j-1''\<rparr>, \<lparr>ClusterId = ''j-2''\<rparr>, \<lparr>ClusterId = ''j-3''\<rparr>],
      describe_cluster = (\<lambda>cluster_id.
        if cluster_id = ''j-1''
          then Inr \<lparr>Status_State = ''TERMINATED'', SecurityConfiguration = Some ''sc''\<rparr>
        else if cluster_id = ''j-2''
          then Inr \<lparr>Status_State = ''RUNNING'', SecurityConfiguration = None\<rparr>
        else if cluster_id = ''j-3''
          then Inr \<lparr>Status_State = ''WAITING'', SecurityConfiguration = Some ''sc''\<rparr>
        else Inl (ClientError ''InvalidRequestException'')),
      describe_security_configuration = (\<lambda>name.
        if name = ''sc'' then Inr document
        else Inl (ClientError ''InvalidRequestException''))\<rparr>"

section \<open>Hostname validation and parameter validation: properties\<close>

text \<open>
  C3. \<open>is_valid_hostname\<close> on the test vectors of the specification: true for
  \<open>example.com\<close> and \<open>ex-ample.co\<close> as domains and for \<open>kdc.example.com:88\<close> as a fully
  qualified name; false for \<open>EXAMPLE\<close>, which has a single label, for \<open>-bad.com\<close>, whose
  first label starts with a hyphen, and for \<open>kdc.example.com:abc\<close>, whose port is not
  numeric.
\<close>

theorem hostname_test_vectors:
  "is_valid_hostname (SStr ''example.com'') ''DOMAIN'' = Inr True \<and>
   is_valid_hostname (SStr ''ex-ample.co'') ''DOMAIN'' = Inr True \<and>
   is_valid_hostname (SStr ''kdc.example.com:88'') ''FQDN'' = Inr True \<and>
   is_valid_hostname (SStr ''EXAMPLE'') ''DOMAIN'' = Inr False \<and>
   length (split (CHR ''.'') ''EXAMPLE'') = 1 \<and>
   is_valid_hostname (SStr ''-bad.com'') ''DOMAIN'' = Inr False \<and>
   \<not> allowed_match ''-bad'' \<and>
   is_valid_hostname (SStr ''kdc.example.com:abc'') ''FQDN'' = Inr False \<and>
   \<not> isnumeric ''abc''"
  by code_simp

theorem hostname_test_vectors_witness:
  "is_valid_hostname (SStr ''example.com'') ''DOMAIN'' = Inr True"
  using hostname_test_vectors by simp

text \<open>
  On a string, \<open>is_valid_hostname\<close> returns a truth value or raises \<open>IndexError\<close>; it
  raises on the empty string.
\<close>

lemma is_valid_hostname_str:
  "is_valid_hostname (SStr s) t = Inl IndexError \<or> (\<exists>b. is_valid_hostname (SStr s) t = Inr b)"
  by (auto simp: is_valid_hostname_def Let_def)

lemma is_valid_hostname_empty: "is_valid_hostname (SStr []) t = Inl IndexError"
  by (simp add: is_valid_hostname_def)

text \<open>
  C2. The validator is not total on the maps of strings: on the map that gives \<open>Domain\<close>
  the empty string, \<open>is_valid_hostname\<close> reads the last character of the empty string,
  and \<open>evaluate_parameters\<close> ends with \<open>IndexError\<close>, which is neither a result nor the
  \<open>ValueError\<close> that names a parameter.
\<close>

theorem evaluate_parameters_empty_domain:
  "evaluate_parameters [(''Domain'', SStr [])] = Inl IndexError"
  by code_simp

theorem evaluate_parameters_empty_domain_witness:
  "evaluate_parameters [(''Domain'', SStr [])] \<noteq> Inl (ValueError ''Domain'')"
  using evaluate_parameters_empty_domain by simp

text \<open>
  On the maps of strings these are the only outcomes: the map itself, a \<open>ValueError\<close>
  that names one of the five parameters, or the \<open>IndexError\<close> of an empty host name.
\<close>

lemma check_hostname_outcomes:
  assumes "\<forall>(k, v) \<in> set rule_parameters. \<exists>s. v = SStr s"
  shows "check_hostname rule_parameters name type = Inr () \<or>
     check_hostname rule_parameters name type = Inl IndexError \<or>
     check_hostname rule_parameters name type = Inl (ValueError name)"
proof (cases "map_of rule_parameters name")
  case None
  then show ?thesis by (simp add: check_hostname_def)
next
  case (Some v)
  then have "(name, v) \<in> set rule_parameters" by (rule map_of_SomeD)
  with assms obtain s where "v = SStr s" by fastforce
  with Some is_valid_hostname_str [of s type] show ?thesis
    by (auto simp: check_hostname_def bind_err_def split: if_splits)
qed

lemma check_realm_outcomes:
  assumes "\<forall>(k, v) \<in> set rule_parameters. \<exists>s. v = SStr s"
  shows "check_realm rule_parameters = Inr () \<or>
     check_realm rule_parameters = Inl IndexError \<or>
     check_realm rule_parameters = Inl (ValueError ''Realm'')"
proof (cases "map_of rule_parameters ''Realm''")
  case None
  then show ?thesis by (simp add: check_realm_def)
next
  case (Some v)
  then have "(''Realm'', v) \<in> set rule_parameters" by (rule map_of_SomeD)
  with assms obtain s where "v = SStr s" by fastforce
  with Some is_valid_hostname_str [of s "''DOMAIN''"] show ?thesis
    by (auto simp: check_realm_def bind_err_def split: if_splits)
qed

lemma check_ticket_outcomes:
  "check_ticket rule_parameters = Inr () \<or>
   check_ticket rule_parameters = Inl (ValueError ''TicketLifetimeInHours'')"
  by (simp add: check_ticket_def split: option.splits)

lemma evaluate_parameters_outcomes:
  assumes "\<forall>(k, v) \<in> set rule_parameters. \<exists>s. v = SStr s"
  shows "evaluate_parameters rule_parameters = Inr rule_parameters \<or>
     evaluate_parameters rule_parameters = Inl IndexError \<or>
     (\<exists>name \<in> {''TicketLifetimeInHours'', ''Realm'', ''Domain'', ''AdminServer'', ''KdcServer''}.
        evaluate_parameters rule_parameters = Inl (ValueError name))"
  using check_ticket_outcomes [of rule_parameters] check_realm_outcomes [OF assms]
    check_hostname_outcomes [OF assms, of "''Domain''" "''DOMAIN''"]
    check_hostname_outcomes [OF assms, of "''AdminServer''" "''FQDN''"]
    check_hostname_outcomes [OF assms, of "''KdcServer''" "''FQDN''"]
  by (auto simp: evaluate_parameters_def bind_err_def)

text \<open>
  C9. When \<open>evaluate_parameters\<close> returns, it returns the dictionary it was given: every
  key and every value, of whatever name and type, is as the caller supplied it.
\<close>

theorem evaluate_parameters_unchanged:
  "evaluate_parameters rule_parameters = Inr valid \<Longrightarrow> valid = rule_parameters"
  by (auto simp: evaluate_parameters_def bind_err_def split: if_splits sum.splits)

theorem evaluate_parameters_unchanged_witness:
  "evaluate_parameters string_parameters = Inr string_parameters \<and>
   ticket_smaller (projr (evaluate_parameters string_parameters)) (JObj (sample_kdc 10)) =
     Inl TypeError"
proof -
  have "isl (evaluate_parameters string_parameters) = False" by code_simp
  then obtain v where v: "evaluate_parameters string_parameters = Inr v"
    by (cases "evaluate_parameters string_parameters") auto
  from evaluate_parameters_unchanged [OF v] have "v = string_parameters" .
  with v have e: "evaluate_parameters string_parameters = Inr string_parameters" by simp
  have "ticket_smaller string_parameters (JObj (sample_kdc 10)) = Inl TypeError" by code_simp
  with e show ?thesis by simp
qed

text \<open>
  A label that ends with a newline is accepted: \<open>$\<close> matches before it.
\<close>

lemma trailing_newline_accepted:
  "is_valid_hostname (SStr (''example.com'' @ [CHR 0x0A])) ''DOMAIN'' = Inr True"
  by code_simp

section \<open>The compliance decision: properties\<close>

lemma kdc_block_found:
  assumes "kdc_block document = Some k"
  shows "kerberos_missing document = Inr False" and "kerberos_details document = Inr k"
  using assms
  by (auto simp: kdc_block_def kerberos_missing_def kerberos_details_def bind_err_def
      py_in_def py_getitem_def getitem_def has_key_def
      split: json.splits option.splits)

lemma evaluate_document_kdc:
  assumes "kdc_block document = Some k"
  shows "evaluate_document ev rule_parameters cluster_id document =
     bind_err (ticket_smaller rule_parameters k) (\<lambda>smaller.
       if smaller then Inr (non_compliant cluster_id ev
         ''TicketLifetimeInHours is smaller than the specified Rule parameter TicketLifetimeInHours.'')
       else evaluate_cross_realm ev rule_parameters cluster_id k)"
  using kdc_block_found [OF assms] by (simp add: evaluate_document_def bind_err_def)


text \<open>
  C4. A cluster whose state is \<open>TERMINATING\<close>, \<open>TERMINATED\<close> or
  \<open>TERMINATED_WITH_ERRORS\<close> is evaluated \<open>NOT_APPLICABLE\<close>, whatever the rule parameters
  and whatever the security configurations are; the only call made for it is
  \<open>describe_cluster\<close>, so no security configuration is fetched.
\<close>

theorem terminated_not_applicable:
  assumes "describe_cluster emr (ClusterId cluster) = Inr described"
    and "Status_State described \<in> terminated_states"
  shows "evaluate_cluster emr ev rule_parameters cluster calls =
     (Inr (not_applicable ev (ClusterId cluster)), calls @ [DescribeCluster (ClusterId cluster)]) \<and>
     map_of (not_applicable ev (ClusterId cluster)) ''ComplianceType'' = Some ''NOT_APPLICABLE''"
  using assms
  by (auto simp: evaluate_cluster_def terminated_states_def Let_def not_applicable_def
      build_evaluation_def)

theorem terminated_not_applicable_witness:
  "evaluate_cluster (sample_emr (kdc_document (sample_kdc 10))) sample_event (sample_parameters 24)
     \<lparr>ClusterId = ''j-1''\<rparr> [ListClusters] =
   (Inr [(''ComplianceResourceType'', ''AWS::EMR::Cluster''),
         (''ComplianceResourceId'', ''j-1''),
         (''ComplianceType'', ''NOT_APPLICABLE''),
         (''OrderingTimestamp'', ''2019-06-01T00:00:00.000Z'')],
    [ListClusters, DescribeCluster ''j-1''])"
proof -
  let ?emr = "sample_emr (kdc_document (sample_kdc 10))"
  let ?d = "\<lparr>Status_State = ''TERMINATED'', SecurityConfiguration = Some ''sc''\<rparr>"
  have d: "describe_cluster ?emr (ClusterId \<lparr>ClusterId = ''j-1''\<rparr>) = Inr ?d"
    by (simp add: sample_emr_def)
  have s: "Status_State ?d \<in> terminated_states"
    by (simp add: terminated_states_def)
  from terminated_not_applicable [OF d s, of sample_event "sample_parameters 24" "[ListClusters]"]
  show ?thesis
    by (simp add: not_applicable_def build_evaluation_def DEFAULT_RESOURCE_TYPE_def sample_event_def)
qed



text \<open>
  With a parameter that is a string, as \<open>evaluate_parameters\<close> lets through, the comparison
  with the integer of the document raises \<open>TypeError\<close>.
\<close>

lemma ticket_smaller_string_parameter:
  "map_of rule_parameters ''TicketLifetimeInHours'' = Some (SStr s) \<Longrightarrow>
   map_of kdc ''TicketLifetimeInHours'' = Some (JVal (SInt t)) \<Longrightarrow>
   ticket_smaller rule_parameters (JObj kdc) = Inl TypeError"
  by (simp add: ticket_smaller_def bind_err_def py_getitem_def getitem_def py_lt_def)

lemma field_differs_KeyError:
  "map_of rule_parameters name = Some p \<Longrightarrow> map_of cross name = None \<Longrightarrow>
   field_differs rule_parameters (JObj cross) name = Inl (KeyError name)"
  by (simp add: field_differs_def bind_err_def py_getitem_def getitem_def)

lemma evaluate_cross_realm_block:
  "map_of kdc ''CrossRealmTrustConfiguration'' = Some cross \<Longrightarrow>
   evaluate_cross_realm ev rule_parameters cluster_id (JObj kdc) =
     bind_err (field_differs rule_parameters cross ''Realm'') (\<lambda>d1.
       if d1 then Inr (non_compliant cluster_id ev
         ''Realm is not equal to the specified Rule parameter Realm.'') else
     bind_err (field_differs rule_parameters cross ''Domain'') (\<lambda>d2.
       if d2 then Inr (non_compliant cluster_id ev
         ''Domain is not equal to the specified Rule parameter Domain.'') else
     bind_err (field_differs rule_parameters cross ''AdminServer'') (\<lambda>d3.
       if d3 then Inr (non_compliant cluster_id ev
         ''AdminServer is not equal to the specified Rule parameter AdminServer.'') else
     bind_err (field_differs rule_parameters cross ''KdcServer'') (\<lambda>d4.
       if d4 then Inr (non_compliant cluster_id ev
         ''KdcServer is not equal to the specified Rule parameter KdcServer.'') else
     Inr (build_evaluation cluster_id ''COMPLIANT'' ev DEFAULT_RESOURCE_TYPE None)))))"
  by (simp add: evaluate_cross_realm_def bind_err_def py_in_def has_key_def py_getitem_def
      getitem_def)

text \<open>
  C10. The evaluation is partial: on a security configuration that has the
  \<open>ClusterDedicatedKdcConfiguration\<close> block, a parameter that is set and whose field is
  absent from the block it is read from makes the evaluation end with \<open>KeyError\<close>
  and no verdict. This holds of \<open>TicketLifetimeInHours\<close> in the block itself and, once
  the checks before it have passed, of \<open>Realm\<close>, \<open>Domain\<close>, \<open>AdminServer\<close> and
  \<open>KdcServer\<close> in the \<open>CrossRealmTrustConfiguration\<close> block.
\<close>

theorem missing_field_KeyError:
  assumes "kdc_block document = Some (JObj kdc)"
  shows
    "(map_of rule_parameters ''TicketLifetimeInHours'' = Some p0 \<and>
      map_of kdc ''TicketLifetimeInHours'' = None \<longrightarrow>
        evaluate_document ev rule_parameters cluster_id document =
          Inl (KeyError ''TicketLifetimeInHours'')) \<and>
     (ticket_smaller rule_parameters (JObj kdc) = Inr False \<and>
      map_of kdc ''CrossRealmTrustConfiguration'' = Some (JObj cross) \<longrightarrow>
        (map_of rule_parameters ''Realm'' = Some p1 \<and> map_of cross ''Realm'' = None \<longrightarrow>
           evaluate_document ev rule_parameters cluster_id document = Inl (KeyError ''Realm'')) \<and>
        (field_differs rule_parameters (JObj cross) ''Realm'' = Inr False \<and>
         map_of rule_parameters ''Domain'' = Some p2 \<and> map_of cross ''Domain'' = None \<longrightarrow>
           evaluate_document ev rule_parameters cluster_id document = Inl (KeyError ''Domain'')) \<and>
        (field_differs rule_parameters (JObj cross) ''Realm'' = Inr False \<and>
         field_differs rule_parameters (JObj cross) ''Domain'' = Inr False \<and>
         map_of rule_parameters ''AdminServer'' = Some p3 \<and> map_of cross ''AdminServer'' = None \<longrightarrow>
           evaluate_document ev rule_parameters cluster_id document =
             Inl (KeyError ''AdminServer'')) \<and>
        (field_differs rule_parameters (JObj cross) ''Realm'' = Inr False \<and>
         field_differs rule_parameters (JObj cross) ''Domain'' = Inr False \<and>
         field_differs rule_parameters (JObj cross) ''AdminServer'' = Inr False \<and>
         map_of rule_parameters ''KdcServer'' = Some p4 \<and> map_of cross ''KdcServer'' = None \<longrightarrow>
           evaluate_document ev rule_parameters cluster_id document =
             Inl (KeyError ''KdcServer'')))"
proof -
  note doc = evaluate_document_kdc [OF assms, of ev rule_parameters cluster_id]
  have ticket: "evaluate_document ev rule_parameters cluster_id document =
      Inl (KeyError ''TicketLifetimeInHours'')"
    if "map_of rule_parameters ''TicketLifetimeInHours'' = Some p0"
      and "map_of kdc ''TicketLifetimeInHours'' = None"
    using that doc
    by (simp add: ticket_smaller_def bind_err_def py_getitem_def getitem_def)
  have cross: "evaluate_document ev rule_parameters cluster_id document =
      Inl (KeyError name)"
    if "ticket_smaller rule_parameters (JObj kdc) = Inr False"
      and "map_of kdc ''CrossRealmTrustConfiguration'' = Some (JObj cross)"
      and "map_of rule_parameters name = Some p" and "map_of cross name = None"
      and "name = ''Realm'' \<or>
           (field_differs rule_parameters (JObj cross) ''Realm'' = Inr False \<and>
            (name = ''Domain'' \<or>
             (field_differs rule_parameters (JObj cross) ''Domain'' = Inr False \<and>
              (name = ''AdminServer'' \<or>
               (field_differs rule_parameters (JObj cross) ''AdminServer'' = Inr False \<and>
                name = ''KdcServer'')))))"
    for name p
    using that(5) field_differs_KeyError [OF that(3,4)]
    by (auto simp: doc that(1) evaluate_cross_realm_block [OF that(2)] bind_err_def)
  show ?thesis
    using ticket cross by blast
qed

theorem missing_field_KeyError_witness:
  "evaluate_document sample_event (sample_parameters 5) ''j-3''
     (kdc_document [(''CrossRealmTrustConfiguration'', JObj sample_cross_realm)]) =
     Inl (KeyError ''TicketLifetimeInHours'') \<and>
   evaluate_document sample_event (sample_parameters 5) ''j-3''
     (kdc_document [(''TicketLifetimeInHours'', JVal (SInt 10)),
        (''CrossRealmTrustConfiguration'', JObj [(''Realm'', JVal (SStr ''AD.EXAMPLE.COM''))])]) =
     Inl (KeyError ''Domain'')"
proof -
  let ?k1 = "[(''CrossRealmTrustConfiguration'', JObj sample_cross_realm)]"
  let ?cross = "[(''Realm'', JVal (SStr ''AD.EXAMPLE.COM''))]"
  let ?k2 = "[(''TicketLifetimeInHours'', JVal (SInt 10)),
    (''CrossRealmTrustConfiguration'', JObj ?cross)]"
  have b1: "kdc_block (kdc_document ?k1) = Some (JObj ?k1)"
    by (simp add: kdc_block_def kdc_document_def)
  have b2: "kdc_block (kdc_document ?k2) = Some (JObj ?k2)"
    by (simp add: kdc_block_def kdc_document_def)
  have p0: "map_of (sample_parameters 5) ''TicketLifetimeInHours'' = Some (SInt 5)"
    and p2: "map_of (sample_parameters 5) ''Domain'' = Some (SStr ''ad.example.com'')"
    by (simp_all add: sample_parameters_def)
  have t: "ticket_smaller (sample_parameters 5) (JObj ?k2) = Inr False"
    by code_simp
  have r: "field_differs (sample_parameters 5) (JObj ?cross) ''Realm'' = Inr False"
    by code_simp
  have first: "evaluate_document sample_event (sample_parameters 5) ''j-3'' (kdc_document ?k1) =
      Inl (KeyError ''TicketLifetimeInHours'')"
    using missing_field_KeyError [OF b1, of "sample_parameters 5" "SInt 5"] p0 by simp
  have second: "evaluate_document sample_event (sample_parameters 5) ''j-3'' (kdc_document ?k2) =
      Inl (KeyError ''Domain'')"
    using missing_field_KeyError [OF b2, where rule_parameters = "sample_parameters 5"
        and cross = ?cross and ?p2.0 = "SStr ''ad.example.com''"] t r p2
    by simp
  from first second show ?thesis by simp
qed

section \<open>The evaluation of the account: properties\<close>

lemma build_evaluation_resource_id:
  "map_of (build_evaluation resource_id compliance_type ev resource_type annotation)
     ''ComplianceResourceId'' = Some resource_id"
  by (simp add: build_evaluation_def split: option.splits)

lemma resource_ids_Cons:
  "resource_ids (e # es) =
     (case map_of e ''ComplianceResourceId'' of None \<Rightarrow> resource_ids es
      | Some r \<Rightarrow> r # resource_ids es)"
  by (simp add: resource_ids_def split: option.splits)

lemma resource_ids_Nil: "resource_ids [] = []"
  by (simp add: resource_ids_def)














section \<open>Reconciliation and submission: properties\<close>

lemma newer_founded_eq:
  "\<forall>e \<in> set latest. has_key ''ComplianceResourceId'' e \<Longrightarrow>
   newer_founded rid latest found = Inr (found \<or> rid \<in> set (resource_ids latest))"
proof (induction latest arbitrary: found)
  case Nil
  then show ?case by (simp add: resource_ids_Nil)
next
  case (Cons e es)
  from Cons.prems obtain r where r: "map_of e ''ComplianceResourceId'' = Some r"
    by (auto simp: has_key_def)
  from Cons.prems have "\<forall>e \<in> set es. has_key ''ComplianceResourceId'' e" by simp
  from Cons.IH [OF this] r show ?case
    by (auto simp: bind_err_def getitem_def resource_ids_Cons)
qed

lemma clean_up_loop_eq:
  "\<forall>e \<in> set latest. has_key ''ComplianceResourceId'' e \<Longrightarrow>
   clean_up_loop ev latest olds cleaned =
     Inr (cleaned @ map (not_applicable ev)
       (filter (\<lambda>rid. rid \<notin> set (resource_ids latest)) olds))"
proof (induction olds arbitrary: cleaned)
  case Nil
  then show ?case by simp
next
  case (Cons rid rest)
  show ?case
    by (simp add: newer_founded_eq [OF Cons.prems] Cons.IH [OF Cons.prems] bind_err_def
        not_applicable_def)
qed



lemma fold_append_filter:
  "fold (\<lambda>x acc. if P x then acc @ [x] else acc) xs acc = acc @ filter P xs"
  by (induction xs arbitrary: acc) simp_all

lemma missing_fields_iff:
  "missing_fields e \<longleftrightarrow> \<not> list_all (\<lambda>field. has_key field e) required_fields"
  by (simp add: missing_fields_def required_fields_def)

lemma latest_of_list_filter:
  "latest_of_list compliance_result =
     filter (\<lambda>e. list_all (\<lambda>field. has_key field e) required_fields) compliance_result"
  using fold_append_filter [of "\<lambda>e. \<not> missing_fields e" compliance_result "[]"]
  by (simp add: latest_of_list_def missing_fields_iff)

lemma latest_of_list_has_id:
  "\<forall>e \<in> set (latest_of_list compliance_result). has_key ''ComplianceResourceId'' e"
  by (simp add: latest_of_list_filter required_fields_def)


lemma concat_put_evaluations: "concat (put_evaluations evaluations) = evaluations"
proof (induction evaluations rule: put_evaluations.induct)
  case (1 evaluations)
  show ?case
  proof (cases "evaluations = []")
    case True
    then show ?thesis by (subst put_evaluations.simps) simp
  next
    case False
    have "put_evaluations evaluations =
        take 100 evaluations # put_evaluations (drop 100 evaluations)"
      using False by (subst put_evaluations.simps) simp
    with 1 [OF False] show ?thesis by simp
  qed
qed

lemma account_not_applicable_has_id:
  "\<forall>e \<in> set [account_not_applicable ev]. has_key ''ComplianceResourceId'' e"
  by (simp add: account_not_applicable_def has_key_def build_evaluation_resource_id)

text \<open>
  C7. Of a list of evaluations, \<open>lambda_handler\<close> keeps those that have the four
  required fields and drops the others; the submission does not fail, and for a list that
  is not empty the batches it puts are, one after the other, the \<open>NOT_APPLICABLE\<close>
  evaluations for the stale resources followed by the evaluations kept.
\<close>

theorem malformed_evaluations_dropped:
  "latest_of_list compliance_result =
     filter (\<lambda>e. list_all (\<lambda>field. has_key field e) required_fields) compliance_result \<and>
   (\<exists>batches. submit_evaluations ev old_eval_list (Some compliance_result) = Inr batches \<and>
      (compliance_result \<noteq> [] \<longrightarrow>
         concat batches =
           map (not_applicable ev)
             (filter (\<lambda>rid. rid \<notin> set (resource_ids (latest_of_list compliance_result)))
                old_eval_list) @
           latest_of_list compliance_result))"
proof -
  note c = clean_up_loop_eq [OF latest_of_list_has_id, where ev = ev and olds = old_eval_list
      and cleaned = "[]" and compliance_result1 = compliance_result]
  note a = clean_up_loop_eq [OF account_not_applicable_has_id, where ev = ev
      and olds = old_eval_list and cleaned = "[]" and ev1 = ev]
  show ?thesis
    by (simp add: latest_of_list_filter [symmetric] submit_evaluations_def
        clean_up_old_evaluations_def c a bind_err_def concat_put_evaluations)
qed

theorem malformed_evaluations_dropped_witness:
  "submit_evaluations sample_event [''A'']
     (Some [[(''ComplianceResourceId'', ''X''), (''ComplianceType'', ''COMPLIANT'')],
      build_evaluation ''B'' ''COMPLIANT'' sample_event DEFAULT_RESOURCE_TYPE None]) =
   Inr [[[(''ComplianceResourceType'', ''AWS::EMR::Cluster''),
          (''ComplianceResourceId'', ''A''),
          (''ComplianceType'', ''NOT_APPLICABLE''),
          (''OrderingTimestamp'', ''2019-06-01T00:00:00.000Z'')],
         [(''ComplianceResourceType'', ''AWS::EMR::Cluster''),
          (''ComplianceResourceId'', ''B''),
          (''ComplianceType'', ''COMPLIANT''),
          (''OrderingTimestamp'', ''2019-06-01T00:00:00.000Z'')]]]"
proof -
  let ?result = "[[(''ComplianceResourceId'', ''X''), (''ComplianceType'', ''COMPLIANT'')],
      build_evaluation ''B'' ''COMPLIANT'' sample_event DEFAULT_RESOURCE_TYPE None]"
  let ?good = "[build_evaluation ''B'' ''COMPLIANT'' sample_event DEFAULT_RESOURCE_TYPE None]"
  from malformed_evaluations_dropped [of ?result sample_event "[''A'']"]
  have kept: "latest_of_list ?result = ?good"
    by (simp add: required_fields_def has_key_def build_evaluation_def)
  have "submit_evaluations sample_event [''A''] (Some ?result) =
      Inr (put_evaluations
        ([build_evaluation ''A'' ''NOT_APPLICABLE'' sample_event DEFAULT_RESOURCE_TYPE None] @ ?good))"
    by (simp add: submit_evaluations_def kept) code_simp
  then show ?thesis
    by (simp add: put_evaluations.simps [of "[a, b]" for a b] put_evaluations.simps [of "[]"]
        build_evaluation_def DEFAULT_RESOURCE_TYPE_def sample_event_def)
qed

text \<open>
  With no cluster the account itself is reported \<open>NOT_APPLICABLE\<close>, after the stale
  resources.
\<close>

lemma submit_no_cluster:
  "\<exists>batches. submit_evaluations ev old_eval_list None = Inr batches \<and>
     concat batches =
       map (not_applicable ev) (filter (\<lambda>rid. rid \<noteq> accountId ev) old_eval_list) @
       [account_not_applicable ev]"
proof -
  note a = clean_up_loop_eq [OF account_not_applicable_has_id, where ev = ev
      and olds = old_eval_list and cleaned = "[]" and ev1 = ev]
  have "resource_ids [account_not_applicable ev] = [accountId ev]"
    by (simp add: resource_ids_Cons resource_ids_Nil account_not_applicable_def
        build_evaluation_resource_id)
  then show ?thesis
    by (simp add: submit_evaluations_def clean_up_old_evaluations_def a bind_err_def
        concat_put_evaluations)
qed

end
